theory Spec2Isabelle
  imports Complex_Main
begin

section \<open>Correctly rounded arithmetic on fractions of integers\<close>

text \<open>
  The notebook computes with Python floats, which are IEEE-754 binary64 numbers, and
  prints them rounded to two or three significant decimal digits. Both roundings are
  round-to-nearest, ties to even, of an exact rational number to a fixed number of
  significant digits in some base (2 with 53 digits for the arithmetic, 10 for the
  printing). They are modelled by one function on exact fractions of integers.

  A fraction \<open>(p, q)\<close> stands for \<open>p / q\<close>; its denominator is positive.
\<close>

type_synonym frac = "int \<times> int"

definition frac_val :: "frac \<Rightarrow> real" where
  "frac_val x = of_int (fst x) / of_int (snd x)"

text \<open>The number of base-\<open>b\<close> digits of a positive integer (0 for \<open>n \<le> 0\<close>).\<close>

function ndigits :: "int \<Rightarrow> int \<Rightarrow> nat" where
  "ndigits b n = (if n \<le> 0 \<or> b \<le> 1 then 0 else Suc (ndigits b (n div b)))"
  by pat_completeness auto
termination
  by (relation "measure (\<lambda>(b, n). nat n)") (auto intro: int_div_less_self)

text \<open>The fraction times \<open>b ^ k\<close>, for any integer \<open>k\<close>.\<close>

definition scale :: "int \<Rightarrow> int \<Rightarrow> frac \<Rightarrow> frac" where
  "scale b k x =
     (if 0 \<le> k then (fst x * b ^ nat k, snd x) else (fst x, snd x * b ^ nat (- k)))"

text \<open>
  The integer logarithm of a positive fraction: the \<open>d\<close> with
  \<open>b ^ d \<le> p / q < b ^ (d + 1)\<close>. The difference of the digit counts is \<open>d\<close> or
  \<open>d + 1\<close>; one comparison decides.
\<close>

definition ilog :: "int \<Rightarrow> frac \<Rightarrow> int" where
  "ilog b x =
     (let d = int (ndigits b (fst x)) - int (ndigits b (snd x));
          s = scale b (- d) x
      in if snd s \<le> fst s then d else d - 1)"

text \<open>The nearest integer to a non-negative fraction, a tie going to the even one.\<close>

definition round_half_even :: "frac \<Rightarrow> int" where
  "round_half_even x =
     (let n = fst x div snd x; r = fst x mod snd x
      in if 2 * r < snd x then n
         else if snd x < 2 * r then n + 1
         else if even n then n else n + 1)"

text \<open>
  A positive fraction rounded to \<open>p\<close> significant digits in base \<open>b\<close>: the result
  \<open>(n, e)\<close> stands for \<open>n * b ^ e\<close>, with \<open>b ^ (p - 1) \<le> n < b ^ p\<close>. When rounding
  carries into a new digit, the exponent moves up by one.
\<close>

definition round_sig :: "int \<Rightarrow> nat \<Rightarrow> frac \<Rightarrow> int \<times> int" where
  "round_sig b p x =
     (let e = ilog b x - int p + 1;
          n = round_half_even (scale b (- e) x)
      in if n = b ^ p then (b ^ (p - 1), e + 1) else (n, e))"


section \<open>Python values and arithmetic\<close>

text \<open>
  The notebook's values are Python ints (unbounded) and floats. \<open>PyFloat n e\<close> is the
  binary64 number \<open>n * 2 ^ e\<close>, with \<open>2 ^ 52 \<le> \<bar>n\<bar> < 2 ^ 53\<close> as binary64 stores the
  significand of a normal number, and \<open>- 1074 \<le> e \<le> 971\<close>.

  Zeros (which binary64 signs), subnormal numbers, infinities and NaNs are outside the
  model: an operation whose binary64 result is one of them stops the run with
  \<open>Unmodelled\<close>, so that a run that returns a state has computed, at every step, the
  very float that Python computes. The other errors are the Python exceptions that the
  operations of the notebook can raise.
\<close>

datatype pyval = PyInt int | PyFloat int int

datatype error = ZeroDivisionError | OverflowError | NameError string | Unmodelled

text \<open>The exact value of a Python number, as a fraction and as a real number.\<close>

fun frac_of :: "pyval \<Rightarrow> frac" where
  "frac_of (PyInt i) = (i, 1)"
| "frac_of (PyFloat n e) = scale 2 e (n, 1)"

definition val :: "pyval \<Rightarrow> real" where
  "val v = frac_val (frac_of v)"

text \<open>The binary64 number nearest to a fraction.\<close>

definition fl :: "frac \<Rightarrow> error + pyval" where
  "fl x =
     (if fst x = 0 then Inl Unmodelled
      else let r = round_sig 2 53 (\<bar>fst x\<bar>, snd x)
           in if snd r < - 1074 \<or> 971 < snd r then Inl Unmodelled
              else Inr (PyFloat (sgn (fst x) * fst r) (snd r)))"

text \<open>
  An int operand of a float operation is converted to float first; Python raises
  OverflowError when the int is too large for a float.
\<close>

fun to_float :: "pyval \<Rightarrow> error + pyval" where
  "to_float (PyInt i) =
     (if i = 0 then Inl Unmodelled
      else case fl (i, 1) of Inl _ \<Rightarrow> Inl OverflowError | Inr v \<Rightarrow> Inr v)"
| "to_float (PyFloat n e) = Inr (PyFloat n e)"

definition float_op :: "(frac \<Rightarrow> frac \<Rightarrow> error + pyval) \<Rightarrow> pyval \<Rightarrow> pyval \<Rightarrow> error + pyval" where
  "float_op f a b =
     (case to_float a of
        Inl e \<Rightarrow> Inl e
      | Inr x \<Rightarrow> (case to_float b of
                   Inl e \<Rightarrow> Inl e
                 | Inr y \<Rightarrow> f (frac_of x) (frac_of y)))"

text \<open>\<open>a * b\<close>: exact on two ints, else the float product, rounded once.\<close>

fun py_mul :: "pyval \<Rightarrow> pyval \<Rightarrow> error + pyval" where
  "py_mul (PyInt a) (PyInt b) = Inr (PyInt (a * b))"
| "py_mul a b = float_op (\<lambda>x y. fl (fst x * fst y, snd x * snd y)) a b"

text \<open>\<open>a - b\<close>: exact on two ints, else the float difference, rounded once.\<close>

fun py_sub :: "pyval \<Rightarrow> pyval \<Rightarrow> error + pyval" where
  "py_sub (PyInt a) (PyInt b) = Inr (PyInt (a - b))"
| "py_sub a b = float_op (\<lambda>x y. fl (fst x * snd y - fst y * snd x, snd x * snd y)) a b"

text \<open>
  \<open>a / b\<close>, Python 3's true division: always a float, the correctly rounded quotient;
  a zero divisor raises ZeroDivisionError.
\<close>

definition is_zero :: "pyval \<Rightarrow> bool" where
  "is_zero v = (fst (frac_of v) = 0)"

definition frac_div :: "frac \<Rightarrow> frac \<Rightarrow> frac" where
  "frac_div x y = (fst x * snd y * sgn (fst y), snd x * \<bar>fst y\<bar>)"

fun py_truediv :: "pyval \<Rightarrow> pyval \<Rightarrow> error + pyval" where
  "py_truediv (PyInt a) (PyInt b) =
     (if b = 0 then Inl ZeroDivisionError else fl (frac_div (a, 1) (b, 1)))"
| "py_truediv a b =
     (if is_zero b then
        (case to_float a of Inl e \<Rightarrow> Inl e | Inr _ \<Rightarrow> Inl ZeroDivisionError)
      else float_op (\<lambda>x y. fl (frac_div x y)) a b)"

text \<open>
  \<open>a ** b\<close>: the notebook raises an int to a non-negative int power, which is exact.
  Every other case (a float result, computed by the C library's \<open>pow\<close>) is outside
  the model.
\<close>

fun py_pow :: "pyval \<Rightarrow> pyval \<Rightarrow> error + pyval" where
  "py_pow (PyInt a) (PyInt b) = (if 0 \<le> b then Inr (PyInt (a ^ nat b)) else Inl Unmodelled)"
| "py_pow a b = Inl Unmodelled"


section \<open>Formatting a float: the presentation type g of str.format\<close>

text \<open>
  \<open>'{:8.3g}'.format(x)\<close> rounds \<open>x\<close> to 3 significant decimal digits (correctly, from
  the exact binary value, ties to even). With \<open>X\<close> the decimal exponent of the rounded
  number, it uses fixed-point notation when \<open>- 4 \<le> X < 3\<close> and scientific notation
  otherwise; in both, trailing zeros of the significand are removed, and the decimal
  point with them when no digit follows it. The exponent has a sign and at least two
  digits. The result is padded with spaces to the width, on the left (numbers are
  right-aligned) unless the specification asks for left alignment with \<open><\<close>.
\<close>

record format_spec =
  align_left :: bool
  width :: nat
  precision :: nat

definition digit_char :: "int \<Rightarrow> char" where
  "digit_char d = ''0123456789'' ! nat d"

text \<open>The decimal numeral of \<open>m\<close> in exactly \<open>k\<close> digits, for \<open>0 \<le> m < 10 ^ k\<close>.\<close>

definition digits_of :: "nat \<Rightarrow> int \<Rightarrow> string" where
  "digits_of k m = map (\<lambda>i. digit_char ((m div 10 ^ (k - 1 - i)) mod 10)) [0..<k]"

definition strip_zeros :: "string \<Rightarrow> string" where
  "strip_zeros s = rev (dropWhile (\<lambda>c. c = CHR ''0'') (rev s))"

definition with_point :: "string \<Rightarrow> string \<Rightarrow> string" where
  "with_point ip fp = (if fp = [] then ip else ip @ ''.'' @ fp)"

definition exp_digits :: "int \<Rightarrow> string" where
  "exp_digits x = digits_of (max 2 (ndigits 10 x)) x"

definition format_g :: "nat \<Rightarrow> frac \<Rightarrow> string" where
  "format_g prec x =
     (let p = max 1 prec;
          r = round_sig 10 p x;
          ds = digits_of p (fst r);
          X = snd r + int p - 1
      in if - 4 \<le> X \<and> X < int p then
           (if 0 \<le> X
            then with_point (take (nat X + 1) ds) (strip_zeros (drop (nat X + 1) ds))
            else with_point ''0'' (replicate (nat (- X) - 1) CHR ''0'' @ strip_zeros ds))
         else with_point (take 1 ds) (strip_zeros (drop 1 ds))
              @ ''e'' @ (if X < 0 then ''-'' else ''+'') @ exp_digits \<bar>X\<bar>)"

definition pad :: "format_spec \<Rightarrow> string \<Rightarrow> string" where
  "pad sp s =
     (let fill = replicate (width sp - length s) CHR '' ''
      in if align_left sp then s @ fill else fill @ s)"

definition format_float :: "format_spec \<Rightarrow> pyval \<Rightarrow> error + string" where
  "format_float sp v =
     (case to_float v of
        Inl e \<Rightarrow> Inl e
      | Inr x \<Rightarrow>
          let q = frac_of x
          in Inr (pad sp ((if fst q < 0 then ''-'' else '''')
                          @ format_g (precision sp) (\<bar>fst q\<bar>, snd q))))"


section \<open>The kernel state, expressions and statements\<close>

text \<open>
  The notebook runs in one Python process. Its state is the global namespace and the
  text printed so far, one string for each line. The field \<open>assigned\<close> is a trace: it
  lists, in order, the target of every assignment statement that has run, so that a
  name assigned twice appears twice.
\<close>

record kernel =
  globals :: "string \<rightharpoonup> pyval"
  stdout :: "string list"
  assigned :: "string list"

definition fresh :: kernel where
  "fresh = \<lparr>globals = Map.empty, stdout = [], assigned = []\<rparr>"

text \<open>
  An expression reads the state and returns a value or raises. A binary operation
  evaluates its left operand first.
\<close>

type_synonym expr = "kernel \<Rightarrow> error + pyval"

definition Name :: "string \<Rightarrow> expr" where
  "Name x k = (case globals k x of None \<Rightarrow> Inl (NameError x) | Some v \<Rightarrow> Inr v)"

definition Int_lit :: "int \<Rightarrow> expr" where
  "Int_lit i k = Inr (PyInt i)"

text \<open>
  A float literal \<open>d\<close>e\<open>x\<close> (the decimal digits \<open>d\<close> with the point removed, times
  \<open>10 ^ x\<close>) denotes the binary64 number nearest to it: \<open>34.5e9\<close> is
  \<open>Float_lit 345 8\<close> and \<open>28.97\<close> is \<open>Float_lit 2897 (- 2)\<close>.
\<close>

definition Float_lit :: "int \<Rightarrow> int \<Rightarrow> expr" where
  "Float_lit d x k = fl (scale 10 x (d, 1))"

definition BinOp :: "(pyval \<Rightarrow> pyval \<Rightarrow> error + pyval) \<Rightarrow> expr \<Rightarrow> expr \<Rightarrow> expr" where
  "BinOp f a b k =
     (case a k of
        Inl e \<Rightarrow> Inl e
      | Inr x \<Rightarrow> (case b k of Inl e \<Rightarrow> Inl e | Inr y \<Rightarrow> f x y))"

text \<open>A statement changes the state or raises; a raise ends the run.\<close>

type_synonym stmt = "kernel \<Rightarrow> error + kernel"

definition assign :: "string \<Rightarrow> expr \<Rightarrow> stmt" where
  "assign x e k =
     (case e k of
        Inl err \<Rightarrow> Inl err
      | Inr v \<Rightarrow> Inr (k\<lparr>globals := (globals k)(x \<mapsto> v), assigned := assigned k @ [x]\<rparr>))"

text \<open>
  \<open>print(pre{:spec}post.format(e))\<close>: one line of output, the formatted value between
  the two literal parts of the format string.
\<close>

definition print_format :: "string \<Rightarrow> format_spec \<Rightarrow> string \<Rightarrow> expr \<Rightarrow> stmt" where
  "print_format pre sp post e k =
     (case e k of
        Inl err \<Rightarrow> Inl err
      | Inr v \<Rightarrow> (case format_float sp v of
                   Inl err \<Rightarrow> Inl err
                 | Inr s \<Rightarrow> Inr (k\<lparr>stdout := stdout k @ [pre @ s @ post]\<rparr>)))"

text \<open>
  \<open>from numpy import *\<close>. numpy is a library, not part of the notebook; of the names
  the import binds the notebook uses \<open>pi\<close> only, the binary64 number nearest to the
  circle constant, 3.141592653589793. The other names are left out of the model.
\<close>

definition numpy_pi :: pyval where
  "numpy_pi = PyFloat 7074237752028440 (- 51)"

definition from_numpy_import_star :: stmt where
  "from_numpy_import_star k = Inr (k\<lparr>globals := (globals k)(''pi'' \<mapsto> numpy_pi)\<rparr>)"

text \<open>\<open>%matplotlib inline\<close> selects a plotting backend; the notebook never plots.\<close>

definition matplotlib_inline :: stmt where
  "matplotlib_inline k = Inr k"

fun exec :: "stmt list \<Rightarrow> kernel \<Rightarrow> error + kernel" where
  "exec [] k = Inr k"
| "exec (s # ss) k = (case s k of Inl err \<Rightarrow> Inl err | Inr k' \<Rightarrow> exec ss k')"


section \<open>The notebook\<close>

text \<open>The two format specifications the notebook uses: \<open>8.3g\<close> and \<open><.2g\<close>.\<close>

definition spec_8_3g :: format_spec where
  "spec_8_3g = \<lparr>align_left = False, width = 8, precision = 3\<rparr>"

definition spec_left_2g :: format_spec where
  "spec_left_2g = \<lparr>align_left = True, width = 0, precision = 2\<rparr>"

text \<open>The code cells, in the order of the notebook (its execution counts 1 to 7).\<close>

definition cell_1 :: "stmt list" where
  "cell_1 = [matplotlib_inline, from_numpy_import_star]"

definition cell_2 :: "stmt list" where
  "cell_2 =
     [assign ''mCO2_in'' (Float_lit 345 8),
      assign ''mCO2_in'' (BinOp py_mul (Name ''mCO2_in'') (Int_lit 1000)),
      print_format ''Global CO2 emissions = '' spec_8_3g '' kg/yr'' (Name ''mCO2_in'')]"

definition cell_3 :: "stmt list" where
  "cell_3 =
     [assign ''nCO2_accum'' (Float_lit 24 (- 7)),
      assign ''mwAir'' (Float_lit 2897 (- 2)),
      assign ''mwCO2'' (Float_lit 4401 (- 2)),
      assign ''wCO2_accum''
        (BinOp py_truediv (BinOp py_mul (Name ''nCO2_accum'') (Name ''mwCO2'')) (Name ''mwAir'')),
      print_format ''Accumulation Rate of CO2 = '' spec_8_3g '' kg CO2/kg air''
        (Name ''wCO2_accum'')]"

definition cell_4 :: "stmt list" where
  "cell_4 =
     [assign ''R'' (Int_lit 6371000),
      assign ''A''
        (BinOp py_mul (BinOp py_mul (Int_lit 4) (Name ''pi''))
           (BinOp py_pow (Name ''R'') (Int_lit 2))),
      assign ''g'' (Float_lit 981 (- 2)),
      assign ''P'' (Int_lit 101325),
      assign ''mAir'' (BinOp py_truediv (BinOp py_mul (Name ''A'') (Name ''P'')) (Name ''g'')),
      print_format ''Estimated mass of the atmosphere = '' spec_8_3g '' kg'' (Name ''mAir'')]"

definition cell_5 :: "stmt list" where
  "cell_5 =
     [assign ''mCO2_accum'' (BinOp py_mul (Name ''wCO2_accum'') (Name ''mAir'')),
      print_format ''Change in CO2 = '' spec_8_3g '' kg CO2/year'' (Name ''mCO2_accum'')]"

definition cell_6 :: "stmt list" where
  "cell_6 =
     [assign ''mCO2_out'' (BinOp py_sub (Name ''mCO2_in'') (Name ''mCO2_accum'')),
      print_format ''Global CO2 outflow = '' spec_8_3g '' kg CO2/yr'' (Name ''mCO2_out'')]"

definition cell_7 :: "stmt list" where
  "cell_7 =
     [assign ''fCO2'' (BinOp py_truediv (Name ''mCO2_accum'') (Name ''mCO2_in'')),
      print_format ''Fraction of CO2 retained in the atmosphere = '' spec_left_2g '' ''
        (Name ''fCO2'')]"

definition notebook :: "stmt list" where
  "notebook = cell_1 @ cell_2 @ cell_3 @ cell_4 @ cell_5 @ cell_6 @ cell_7"


text \<open>
  A program that never assigns a name twice: its run from a fresh kernel returns, and
  no name occurs twice in the trace of its assignments.
\<close>

definition assigned_once :: "stmt list \<Rightarrow> bool" where
  "assigned_once prog =
     (case exec prog fresh of Inl _ \<Rightarrow> False | Inr k \<Rightarrow> distinct (assigned k))"


section \<open>The rounding functions round correctly\<close>

text \<open>
  The digit count brackets a positive integer between two consecutive powers of the
  base.
\<close>

lemma ndigits_pos: "1 < b \<Longrightarrow> 0 < n \<Longrightarrow> ndigits b n = Suc (ndigits b (n div b))"
  by (subst ndigits.simps) simp

lemma ndigits_nonpos: "n \<le> 0 \<Longrightarrow> ndigits b n = 0"
  by (subst ndigits.simps) simp

lemma ndigits_bounds:
  "1 < b \<Longrightarrow> 0 < n \<Longrightarrow> b ^ (ndigits b n - 1) \<le> n \<and> n < b ^ ndigits b n"
proof (induction b n rule: ndigits.induct)
  case (1 b n)
  from 1(2) have b0: "0 < b" by simp
  show ?case
  proof (cases "n div b = 0")
    case True
    have "n < b" using True pos_mod_bound[OF b0, of n] mult_div_mod_eq[of b n] by simp
    moreover have "ndigits b n = Suc 0"
      using 1 True by (simp add: ndigits_pos ndigits_nonpos)
    ultimately show ?thesis using 1 by simp
  next
    case False
    with 1 have pos: "0 < n div b"
      using pos_imp_zdiv_nonneg_iff[OF b0, of n] by simp
    let ?d = "ndigits b (n div b)"
    have IH: "b ^ (?d - 1) \<le> n div b \<and> n div b < b ^ ?d"
      using 1 pos by simp
    have d: "0 < ?d" using pos 1 by (simp add: ndigits_pos)
    have eq: "ndigits b n = Suc ?d" using 1 by (simp add: ndigits_pos)
    have "b ^ ?d = b * b ^ (?d - 1)" using d by (cases ?d) simp_all
    also have "\<dots> \<le> b * (n div b)" using IH 1 by (simp add: mult_left_mono)
    also have "\<dots> \<le> n" using mult_div_mod_eq[of b n] pos_mod_sign[OF b0, of n] by linarith
    finally have lower: "b ^ ?d \<le> n" .
    have "n = b * (n div b) + n mod b" by simp
    also have "\<dots> < b * (n div b) + b" using pos_mod_bound[OF b0, of n] by linarith
    also have "\<dots> = b * (n div b + 1)" by (simp add: algebra_simps)
    also have "\<dots> \<le> b * b ^ ?d" using IH 1 by (intro mult_left_mono) auto
    finally have upper: "n < b ^ Suc ?d" by simp
    show ?thesis using lower upper eq by simp
  qed
qed

text \<open>Scaling multiplies the value by a power of the base, and keeps signs.\<close>

lemma scale_snd_pos: "0 < b \<Longrightarrow> 0 < snd x \<Longrightarrow> 0 < snd (scale b k x)"
  by (simp add: scale_def)

lemma scale_fst_pos: "0 < b \<Longrightarrow> 0 < fst x \<Longrightarrow> 0 < fst (scale b k x)"
  by (simp add: scale_def)

lemma frac_val_scale:
  "0 < b \<Longrightarrow> frac_val (scale b k x) = frac_val x * of_int b powi k"
  by (simp add: scale_def frac_val_def power_int_def field_simps)

lemma frac_val_ge_iff:
  "0 < snd x \<Longrightarrow> (of_int m \<le> frac_val x) = (m * snd x \<le> fst x)"
proof -
  assume q: "0 < snd x"
  have "(of_int m \<le> frac_val x) = (real_of_int (m * snd x) \<le> real_of_int (fst x))"
    using q by (simp add: frac_val_def pos_le_divide_eq)
  then show ?thesis by (simp only: of_int_le_iff)
qed

lemma frac_val_less_iff:
  "0 < snd x \<Longrightarrow> (frac_val x < of_int m) = (fst x < m * snd x)"
proof -
  assume q: "0 < snd x"
  have "(frac_val x < of_int m) = (real_of_int (fst x) < real_of_int (m * snd x))"
    using q by (simp add: frac_val_def pos_divide_less_eq)
  then show ?thesis by (simp only: of_int_less_iff)
qed

lemma powi_pred: "0 < n \<Longrightarrow> (B::real) powi (int n - 1) = B ^ (n - 1)"
  by (cases n) simp_all

lemma powi_split: "(B::real) \<noteq> 0 \<Longrightarrow> m + n = k \<Longrightarrow> B powi m * B powi n = B powi k"
  using power_int_add[of B m n] by auto

lemma powi_ge_iff: "0 < (B::real) \<Longrightarrow> (1 \<le> y * B powi (- d)) = (B powi d \<le> y)"
proof -
  assume B: "0 < B"
  then have pos: "0 < B powi d" by simp
  have "B powi (- d) = 1 / B powi d" by (simp add: power_int_minus divide_inverse)
  then have "(1 \<le> y * B powi (- d)) = (1 \<le> y / B powi d)" by simp
  also have "\<dots> = (B powi d \<le> y)" using pos by (simp add: pos_le_divide_eq)
  finally show ?thesis .
qed

text \<open>
  The integer logarithm is the exponent of the power of the base just below the
  fraction.
\<close>

lemma ilog_bounds:
  assumes b: "1 < b" and p: "0 < fst x" and q: "0 < snd x"
  shows "of_int b powi ilog b x \<le> frac_val x \<and> frac_val x < of_int b powi (ilog b x + 1)"
proof -
  let ?B = "real_of_int b"
  let ?dp = "ndigits b (fst x)" and ?dq = "ndigits b (snd x)"
  let ?d = "int ?dp - int ?dq"
  have B: "1 < ?B" "0 < ?B" "?B \<noteq> 0" using b by simp_all
  have dp: "0 < ?dp" and dq: "0 < ?dq" using b p q by (simp_all add: ndigits_pos)
  have P: "real_of_int (b ^ (?dp - 1)) \<le> real_of_int (fst x)" "real_of_int (fst x) < real_of_int (b ^ ?dp)"
    using ndigits_bounds[OF b p] by (simp_all only: of_int_le_iff of_int_less_iff)
  have Q: "real_of_int (b ^ (?dq - 1)) \<le> real_of_int (snd x)" "real_of_int (snd x) < real_of_int (b ^ ?dq)"
    using ndigits_bounds[OF b q] by (simp_all only: of_int_le_iff of_int_less_iff)
  have P': "?B powi (int ?dp - 1) \<le> of_int (fst x)" "of_int (fst x) < ?B powi int ?dp"
    unfolding powi_pred[OF dp] power_int_of_nat using P by (simp_all only: of_int_power)
  have Q': "?B powi (int ?dq - 1) \<le> of_int (snd x)" "of_int (snd x) < ?B powi int ?dq"
    unfolding powi_pred[OF dq] power_int_of_nat using Q by (simp_all only: of_int_power)
  have qr: "0 < real_of_int (snd x)" using q by simp
  have "of_int (fst x) < ?B powi int ?dp" by (rule P')
  also have "\<dots> = ?B powi (?d + 1) * ?B powi (int ?dq - 1)"
    by (rule powi_split[symmetric]) (use B in simp_all)
  also have "\<dots> \<le> ?B powi (?d + 1) * of_int (snd x)"
    by (rule mult_left_mono[OF Q'(1)]) (use B in simp)
  finally have upper: "frac_val x < ?B powi (?d + 1)"
    using qr by (simp add: frac_val_def pos_divide_less_eq)
  have "?B powi (?d - 1) * of_int (snd x) < ?B powi (?d - 1) * ?B powi int ?dq"
    by (rule mult_strict_left_mono[OF Q'(2)]) (use B in simp)
  also have "\<dots> = ?B powi (int ?dp - 1)"
    by (rule powi_split) (use B in simp_all)
  also have "\<dots> \<le> of_int (fst x)" by (rule P')
  finally have lower: "?B powi (?d - 1) < frac_val x"
    using qr by (simp add: frac_val_def pos_less_divide_eq)
  let ?s = "scale b (- ?d) x"
  have b0: "0 < b" using b by simp
  have s: "0 < snd ?s" using scale_snd_pos[OF b0 q] .
  have test: "(snd ?s \<le> fst ?s) = (?B powi ?d \<le> frac_val x)"
  proof -
    have "(snd ?s \<le> fst ?s) = (of_int 1 \<le> frac_val ?s)"
      using frac_val_ge_iff[OF s, of 1] by simp
    also have "\<dots> = (1 \<le> frac_val x * ?B powi (- ?d))"
      by (simp add: frac_val_scale[OF b0])
    also have "\<dots> = (?B powi ?d \<le> frac_val x)"
      by (rule powi_ge_iff[OF B(2)])
    finally show ?thesis .
  qed
  show ?thesis
  proof (cases "snd ?s \<le> fst ?s")
    case True
    then have "ilog b x = ?d" by (simp add: ilog_def Let_def)
    with True test upper show ?thesis by simp
  next
    case False
    then have "ilog b x = ?d - 1" by (simp add: ilog_def Let_def)
    with False test lower show ?thesis by simp
  qed
qed

text \<open>
  Rounding to the nearest integer is off by at most a half, takes the even integer at
  a tie, and stays between any two integers that bracket the fraction.
\<close>

lemma div_ge_int: "0 < (q::int) \<Longrightarrow> m * q \<le> p \<Longrightarrow> m \<le> p div q"
  using zdiv_mono1[of "m * q" p q] by simp

lemma div_less_int:
  assumes q: "0 < (q::int)" and less: "p < m * q"
  shows "p div q < m"
proof (rule ccontr)
  assume "\<not> p div q < m"
  then have "m \<le> p div q" by simp
  then have "m * q \<le> (p div q) * q" using q by (simp add: mult_right_mono)
  also have "\<dots> \<le> p" using div_mult_mod_eq[of p q] pos_mod_sign[OF q, of p] by linarith
  finally show False using less by simp
qed

lemma round_half_even_cases:
  "round_half_even x = fst x div snd x \<or> round_half_even x = fst x div snd x + 1"
  by (simp add: round_half_even_def Let_def)

lemma round_half_even_near:
  assumes q: "0 < snd x"
  shows "\<bar>real_of_int (round_half_even x) - frac_val x\<bar> \<le> 1 / 2"
proof -
  let ?p = "fst x" and ?q = "snd x"
  let ?n = "?p div ?q" and ?r = "?p mod ?q"
  have r: "0 \<le> ?r" "?r < ?q" using q by simp_all
  have qr: "0 < real_of_int ?q" using q by simp
  have "real_of_int ?p = real_of_int (?q * ?n + ?r)" by simp
  then have p: "real_of_int ?p = real_of_int ?q * real_of_int ?n + real_of_int ?r"
    by (simp only: of_int_add of_int_mult)
  have fv: "frac_val x = real_of_int ?n + real_of_int ?r / real_of_int ?q"
    using qr by (simp add: frac_val_def p field_simps)
  have rq: "0 \<le> real_of_int ?r / real_of_int ?q" "real_of_int ?r / real_of_int ?q < 1"
    using r qr by simp_all
  show ?thesis
  proof (cases "2 * ?r < ?q")
    case True
    then have "real_of_int (2 * ?r) < real_of_int ?q" by (simp only: of_int_less_iff)
    then have "real_of_int ?r / real_of_int ?q < 1 / 2" using qr by (simp add: field_simps)
    moreover have "round_half_even x = ?n" using True by (simp add: round_half_even_def Let_def)
    ultimately show ?thesis using fv rq by simp
  next
    case F1: False
    show ?thesis
    proof (cases "?q < 2 * ?r")
      case True
      then have "real_of_int ?q < real_of_int (2 * ?r)" by (simp only: of_int_less_iff)
      then have "1 / 2 < real_of_int ?r / real_of_int ?q" using qr by (simp add: field_simps)
      moreover have "round_half_even x = ?n + 1"
        using True F1 by (simp add: round_half_even_def Let_def)
      ultimately show ?thesis using fv rq by simp
    next
      case False
      with F1 have "2 * ?r = ?q" by simp
      then have "real_of_int (2 * ?r) = real_of_int ?q" by simp
      then have "real_of_int ?r / real_of_int ?q = 1 / 2" using qr by (simp add: field_simps)
      then show ?thesis using fv round_half_even_cases[of x] by auto
    qed
  qed
qed

lemma round_half_even_tie:
  assumes q: "0 < snd x" and tie: "2 * (fst x mod snd x) = snd x"
  shows "even (round_half_even x)"
  using tie by (simp add: round_half_even_def Let_def)

lemma round_half_even_ge:
  assumes q: "0 < snd x" and m: "of_int m \<le> frac_val x"
  shows "m \<le> round_half_even x"
proof -
  have "m * snd x \<le> fst x" using m frac_val_ge_iff[OF q] by simp
  then have "m \<le> fst x div snd x" using div_ge_int[OF q] by simp
  then show ?thesis using round_half_even_cases[of x] by auto
qed

lemma round_half_even_le:
  assumes q: "0 < snd x" and m: "frac_val x < of_int m"
  shows "round_half_even x \<le> m"
proof -
  have "fst x < m * snd x" using m frac_val_less_iff[OF q] by simp
  then have "fst x div snd x < m" using div_less_int[OF q] by simp
  then show ?thesis using round_half_even_cases[of x] by auto
qed

text \<open>
  Rounding to \<open>p\<close> significant digits returns exactly \<open>p\<close> digits, at the exponent of
  the fraction or one above after a carry, and is off by at most half a unit of the
  last digit.
\<close>

lemma round_sig_bounds:
  assumes b: "1 < b" and p: "0 < p" and x: "0 < fst x" "0 < snd x"
  shows "b ^ (p - 1) \<le> fst (round_sig b p x)" and "fst (round_sig b p x) < b ^ p"
    and "snd (round_sig b p x) = ilog b x - int p + 1
         \<or> snd (round_sig b p x) = ilog b x - int p + 1 + 1"
    and "\<bar>of_int (fst (round_sig b p x)) * of_int b powi snd (round_sig b p x) - frac_val x\<bar>
         \<le> of_int b powi (ilog b x - int p + 1) / 2"
proof -
  define r where "r = round_sig b p x"
  define e0 where "e0 = ilog b x - int p + 1"
  let ?B = "real_of_int b"
  let ?y = "scale b (- e0) x"
  let ?n = "round_half_even ?y"
  have b0: "0 < b" using b by simp
  have B: "0 < ?B" "?B \<noteq> 0" "1 < ?B" using b by simp_all
  have y: "0 < snd ?y" by (rule scale_snd_pos[OF b0 x(2)])
  have fy: "frac_val ?y = frac_val x * ?B powi (- e0)" by (rule frac_val_scale[OF b0])
  have pe: "0 < ?B powi (- e0)" "0 < ?B powi e0" using B by simp_all
  have inv: "?B powi (- e0) * ?B powi e0 = 1"
    by (rule trans[OF powi_split[OF B(2), of "- e0" e0 0]]) simp_all
  have lo: "real_of_int (b ^ (p - 1)) \<le> frac_val ?y"
  proof -
    have "real_of_int (b ^ (p - 1)) = ?B powi (int p - 1)"
      by (simp only: of_int_power powi_pred[OF p])
    also have "\<dots> = ?B powi ilog b x * ?B powi (- e0)"
      by (rule powi_split[symmetric]) (use B in \<open>simp_all add: e0_def\<close>)
    also have "\<dots> \<le> frac_val x * ?B powi (- e0)"
      using ilog_bounds[OF b x] pe by (intro mult_right_mono) simp_all
    finally show ?thesis by (simp only: fy)
  qed
  have hi: "frac_val ?y < real_of_int (b ^ p)"
  proof -
    have "frac_val ?y = frac_val x * ?B powi (- e0)" by (rule fy)
    also have "\<dots> < ?B powi (ilog b x + 1) * ?B powi (- e0)"
      using ilog_bounds[OF b x] pe by (intro mult_strict_right_mono) simp_all
    also have "\<dots> = ?B powi int p"
      by (rule powi_split) (use B in \<open>simp_all add: e0_def\<close>)
    finally show ?thesis by (simp only: of_int_power power_int_of_nat)
  qed
  have n_lo: "b ^ (p - 1) \<le> ?n" by (rule round_half_even_ge[OF y lo])
  have n_hi: "?n \<le> b ^ p" by (rule round_half_even_le[OF y hi])
  have bp: "b ^ (p - 1) < b ^ p" using b p by (simp add: power_strict_increasing)
  have r: "r = (if ?n = b ^ p then (b ^ (p - 1), e0 + 1) else (?n, e0))"
    by (simp add: r_def e0_def round_sig_def Let_def)
  show "b ^ (p - 1) \<le> fst (round_sig b p x)"
    using n_lo by (simp add: r r_def [symmetric])
  show "fst (round_sig b p x) < b ^ p"
    using n_hi bp by (simp add: r r_def [symmetric])
  show "snd (round_sig b p x) = ilog b x - int p + 1
        \<or> snd (round_sig b p x) = ilog b x - int p + 1 + 1"
    unfolding r_def [symmetric] e0_def [symmetric] by (simp add: r)
  have same: "of_int (fst r) * ?B powi snd r = of_int ?n * ?B powi e0"
  proof (cases "?n = b ^ p")
    case True
    have "of_int (fst r) * ?B powi snd r = ?B powi (int p - 1) * ?B powi (e0 + 1)"
      using True by (simp add: r of_int_power powi_pred[OF p] del: power_int_of_nat)
    also have "\<dots> = ?B powi (int p + e0)"
      by (rule powi_split) (use B in simp_all)
    also have "\<dots> = ?B powi int p * ?B powi e0"
      by (rule powi_split[symmetric]) (use B in simp_all)
    also have "\<dots> = of_int ?n * ?B powi e0"
      using True by (simp add: of_int_power)
    finally show ?thesis .
  next
    case False
    then show ?thesis by (simp add: r)
  qed
  have "of_int ?n * ?B powi e0 - frac_val x = (of_int ?n - frac_val ?y) * ?B powi e0"
  proof -
    have "frac_val ?y * ?B powi e0 = frac_val x * (?B powi (- e0) * ?B powi e0)"
      by (simp only: fy mult.assoc)
    then have "frac_val ?y * ?B powi e0 = frac_val x" by (simp only: inv mult_1_right)
    then show ?thesis by (simp add: algebra_simps)
  qed
  then have "\<bar>of_int ?n * ?B powi e0 - frac_val x\<bar> = \<bar>of_int ?n - frac_val ?y\<bar> * ?B powi e0"
    using pe by (simp add: abs_mult)
  also have "\<dots> \<le> 1 / 2 * ?B powi e0"
    using round_half_even_near[OF y] pe by (intro mult_right_mono) simp_all
  finally have "\<bar>of_int (fst r) * ?B powi snd r - frac_val x\<bar> \<le> ?B powi e0 / 2"
    by (simp only: same)
  then show "\<bar>of_int (fst (round_sig b p x)) * ?B powi snd (round_sig b p x) - frac_val x\<bar>
         \<le> ?B powi (ilog b x - int p + 1) / 2"
    by (simp only: r_def e0_def)
qed

text \<open>
  A float that \<open>fl\<close> returns is a normal binary64 number, within the relative error
  \<open>2 ^ - 53\<close> of the fraction it rounds. Hence the product, the difference and the
  quotient of two floats are the exact results with that relative error, as IEEE-754
  requires of round-to-nearest.
\<close>

lemma frac_of_snd_pos: "0 < snd (frac_of v)"
  by (cases v) (simp_all add: scale_def)

lemma val_powi: "val (PyFloat n e) = of_int n * 2 powi e"
  using frac_val_scale[of 2 e "(n, 1)"] by (simp add: val_def frac_val_def)

lemma fl_sound:
  assumes q: "0 < snd x" and v: "fl x = Inr v"
  shows "\<exists>n e. v = PyFloat n e \<and> 2 ^ 52 \<le> \<bar>n\<bar> \<and> \<bar>n\<bar> < 2 ^ 53 \<and> - 1074 \<le> e \<and> e \<le> 971
           \<and> \<bar>val v - frac_val x\<bar> \<le> \<bar>frac_val x\<bar> / 2 ^ 53"
proof -
  let ?p = "fst x"
  let ?x' = "(\<bar>?p\<bar>, snd x)"
  let ?r = "round_sig 2 53 ?x'"
  let ?L = "ilog 2 ?x'"
  have p: "?p \<noteq> 0" using v by (auto simp: fl_def)
  then have x': "0 < fst ?x'" "0 < snd ?x'" using q by simp_all
  have range: "- 1074 \<le> snd ?r" "snd ?r \<le> 971" and veq: "v = PyFloat (sgn ?p * fst ?r) (snd ?r)"
    using v p by (auto simp: fl_def Let_def split: if_splits)
  have two: "(1::int) < 2" and prec: "(0::nat) < 53" by simp_all
  note rb = round_sig_bounds[OF two prec x']
  have n: "\<bar>sgn ?p * fst ?r\<bar> = fst ?r" using p rb(1) by (simp add: abs_mult)
  have qr: "0 < real_of_int (snd x)" using q by simp
  have ax: "\<bar>frac_val x\<bar> = frac_val ?x'"
    using qr by (simp add: frac_val_def)
  have "real_of_int ?p = real_of_int (sgn ?p * \<bar>?p\<bar>)" by (simp only: sgn_mult_abs)
  then have sx: "frac_val x = of_int (sgn ?p) * frac_val ?x'"
    by (simp add: frac_val_def)
  have s1: "\<bar>real_of_int (sgn ?p)\<bar> = 1" using p by (simp add: sgn_if)
  have "val v - frac_val x = of_int (sgn ?p) * (of_int (fst ?r) * 2 powi snd ?r - frac_val ?x')"
    by (simp add: veq val_powi sx algebra_simps)
  then have "\<bar>val v - frac_val x\<bar> = \<bar>of_int (fst ?r) * 2 powi snd ?r - frac_val ?x'\<bar>"
    by (simp only: abs_mult s1 mult_1)
  also have "\<dots> \<le> 2 powi (?L - int 53 + 1) / 2" using rb(4) by simp
  also have "\<dots> = 2 powi ?L / 2 ^ 53"
  proof -
    have "(2::real) powi (?L - int 53 + 1) * 2 powi 52 = 2 powi ?L"
      by (rule powi_split) simp_all
    then show ?thesis by (simp add: field_simps)
  qed
  also have "\<dots> \<le> frac_val ?x' / 2 ^ 53"
    using ilog_bounds[OF two x'] by (simp add: divide_right_mono)
  finally have err: "\<bar>val v - frac_val x\<bar> \<le> \<bar>frac_val x\<bar> / 2 ^ 53" by (simp only: ax)
  show ?thesis using veq n rb(1,2) range err by auto
qed

lemma frac_val_mul:
  "frac_val (fst x * fst y, snd x * snd y) = frac_val x * frac_val y"
  by (simp add: frac_val_def)

lemma frac_val_sub:
  assumes "0 < snd x" and "0 < snd y"
  shows "frac_val (fst x * snd y - fst y * snd x, snd x * snd y) = frac_val x - frac_val y"
  using assms by (simp add: frac_val_def field_simps)

lemma frac_val_div:
  assumes "fst y \<noteq> 0"
  shows "frac_val (frac_div x y) = frac_val x / frac_val y"
proof (cases "0 < fst y")
  case True
  then show ?thesis by (simp add: frac_val_def frac_div_def)
next
  case False
  with assms have "fst y < 0" by simp
  then show ?thesis by (simp add: frac_val_def frac_div_def)
qed

lemma frac_div_snd_pos: "0 < snd x \<Longrightarrow> fst y \<noteq> 0 \<Longrightarrow> 0 < snd (frac_div x y)"
  by (simp add: frac_div_def)

lemma py_mul_sound:
  assumes "py_mul (PyFloat m d) (PyFloat n e) = Inr v"
  shows "\<bar>val v - val (PyFloat m d) * val (PyFloat n e)\<bar>
         \<le> \<bar>val (PyFloat m d) * val (PyFloat n e)\<bar> / 2 ^ 53"
proof -
  let ?x = "frac_of (PyFloat m d)" and ?y = "frac_of (PyFloat n e)"
  have "fl (fst ?x * fst ?y, snd ?x * snd ?y) = Inr v"
    using assms by (simp add: float_op_def del: frac_of.simps)
  moreover have "0 < snd (fst ?x * fst ?y, snd ?x * snd ?y)"
    using frac_of_snd_pos[of "PyFloat m d"] frac_of_snd_pos[of "PyFloat n e"]
    by (simp del: frac_of.simps)
  ultimately show ?thesis
    using fl_sound[of "(fst ?x * fst ?y, snd ?x * snd ?y)" v]
    by (auto simp only: frac_val_mul val_def)
qed

lemma py_sub_sound:
  assumes "py_sub (PyFloat m d) (PyFloat n e) = Inr v"
  shows "\<bar>val v - (val (PyFloat m d) - val (PyFloat n e))\<bar>
         \<le> \<bar>val (PyFloat m d) - val (PyFloat n e)\<bar> / 2 ^ 53"
proof -
  let ?x = "frac_of (PyFloat m d)" and ?y = "frac_of (PyFloat n e)"
  let ?z = "(fst ?x * snd ?y - fst ?y * snd ?x, snd ?x * snd ?y)"
  note pos = frac_of_snd_pos[of "PyFloat m d"] frac_of_snd_pos[of "PyFloat n e"]
  have "fl ?z = Inr v"
    using assms by (simp add: float_op_def del: frac_of.simps)
  moreover have "0 < snd ?z" using pos by (simp del: frac_of.simps)
  ultimately show ?thesis
    using fl_sound[of ?z v] by (auto simp only: frac_val_sub[OF pos] val_def)
qed

lemma py_truediv_sound:
  assumes "py_truediv (PyFloat m d) (PyFloat n e) = Inr v"
  shows "\<bar>val v - val (PyFloat m d) / val (PyFloat n e)\<bar>
         \<le> \<bar>val (PyFloat m d) / val (PyFloat n e)\<bar> / 2 ^ 53"
proof -
  let ?x = "frac_of (PyFloat m d)" and ?y = "frac_of (PyFloat n e)"
  note pos = frac_of_snd_pos[of "PyFloat m d"]
  have nz: "fst ?y \<noteq> 0"
    using assms by (auto simp: is_zero_def simp del: frac_of.simps split: if_splits)
  then have "fl (frac_div ?x ?y) = Inr v"
    using assms by (simp add: float_op_def is_zero_def del: frac_of.simps)
  then show ?thesis
    using fl_sound[OF frac_div_snd_pos[OF pos nz], of v]
    by (auto simp only: frac_val_div[OF nz] val_def)
qed


section \<open>The floats of the run\<close>

text \<open>
  Each literal, each arithmetic operation and each formatting of the run, evaluated
  from the definitions above.
\<close>

lemma lit_mCO2_in: "fl (scale 10 8 (345, 1)) = Inr (PyFloat 4521984000000000 (- 17))"
  by code_simp
lemma lit_nCO2_accum: "fl (scale 10 (- 7) (24, 1)) = Inr (PyFloat 5666839779443574 (- 71))"
  by code_simp
lemma lit_mwAir: "fl (scale 10 (- 2) (2897, 1)) = Inr (PyFloat 8154330075307704 (- 48))"
  by code_simp
lemma lit_mwCO2: "fl (scale 10 (- 2) (4401, 1)) = Inr (PyFloat 6193856862517985 (- 47))"
  by code_simp
lemma lit_g: "fl (scale 10 (- 2) (981, 1)) = Inr (PyFloat 5522539043063071 (- 49))"
  by code_simp

lemma op_mCO2_in:
  "py_mul (PyFloat 4521984000000000 (- 17)) (PyInt 1000) = Inr (PyFloat 8832000000000000 (- 8))"
  by code_simp
lemma op_n_mwCO2:
  "py_mul (PyFloat 5666839779443574 (- 71)) (PyFloat 6193856862517985 (- 47))
   = Inr (PyFloat 7793675584165990 (- 66))"
  by code_simp
lemma op_wCO2_accum:
  "py_truediv (PyFloat 7793675584165990 (- 66)) (PyFloat 8154330075307704 (- 48))
   = Inr (PyFloat 8608823565526810 (- 71))"
  by code_simp
lemma op_4_pi: "py_mul (PyInt 4) (PyFloat 7074237752028440 (- 51)) = Inr (PyFloat 7074237752028440 (- 49))"
  by code_simp
lemma op_R_2: "py_pow (PyInt 6371000) (PyInt 2) = Inr (PyInt 40589641000000)"
  by code_simp
lemma op_A:
  "py_mul (PyFloat 7074237752028440 (- 49)) (PyInt 40589641000000) = Inr (PyFloat 8161031550556612 (- 4))"
  by code_simp
lemma op_A_P:
  "py_mul (PyFloat 8161031550556612 (- 4)) (PyInt 101325) = Inr (PyFloat 6308872389680090 13)"
  by code_simp
lemma op_mAir:
  "py_truediv (PyFloat 6308872389680090 13) (PyFloat 5522539043063071 (- 49))
   = Inr (PyFloat 5144850062939930 10)"
  by code_simp
lemma op_mCO2_accum:
  "py_mul (PyFloat 8608823565526810 (- 71)) (PyFloat 5144850062939930 10)
   = Inr (PyFloat 4917300618127936 (- 8))"
  by code_simp
lemma op_mCO2_out:
  "py_sub (PyFloat 8832000000000000 (- 8)) (PyFloat 4917300618127936 (- 8))
   = Inr (PyFloat 7829398763744128 (- 9))"
  by code_simp
lemma op_fCO2:
  "py_truediv (PyFloat 4917300618127936 (- 8)) (PyFloat 8832000000000000 (- 8))
   = Inr (PyFloat 5014844481763968 (- 53))"
  by code_simp

lemma fmt_mCO2_in: "format_float spec_8_3g (PyFloat 8832000000000000 (- 8)) = Inr ''3.45e+13''"
  by code_simp
lemma fmt_wCO2_accum: "format_float spec_8_3g (PyFloat 8608823565526810 (- 71)) = Inr ''3.65e-06''"
  by code_simp
lemma fmt_mAir: "format_float spec_8_3g (PyFloat 5144850062939930 10) = Inr ''5.27e+18''"
  by code_simp
lemma fmt_mCO2_accum: "format_float spec_8_3g (PyFloat 4917300618127936 (- 8)) = Inr ''1.92e+13''"
  by code_simp
lemma fmt_mCO2_out: "format_float spec_8_3g (PyFloat 7829398763744128 (- 9)) = Inr ''1.53e+13''"
  by code_simp
lemma fmt_fCO2: "format_float spec_left_2g (PyFloat 5014844481763968 (- 53)) = Inr ''0.56''"
  by code_simp

lemma op_ratio:
  "py_truediv (PyFloat 6193856862517985 (- 47)) (PyFloat 8154330075307704 (- 48))
   = Inr (PyFloat 6841678274096497 (- 52))"
  by code_simp
lemma op_n_ratio:
  "py_mul (PyFloat 5666839779443574 (- 71)) (PyFloat 6841678274096497 (- 52))
   = Inr (PyFloat 8608823565526810 (- 71))"
  by code_simp
lemma op_mAir_w:
  "py_mul (PyFloat 5144850062939930 10) (PyFloat 8608823565526810 (- 71))
   = Inr (PyFloat 4917300618127936 (- 8))"
  by code_simp

text \<open>
  The floats that are printed, rounded to the significant decimal digits of their
  format: \<open>(n, e)\<close> stands for \<open>n * 10 ^ e\<close>.
\<close>

lemma sig_wCO2_accum: "round_sig 10 3 (frac_of (PyFloat 8608823565526810 (- 71))) = (365, - 8)"
  by code_simp
lemma sig_mAir: "round_sig 10 3 (frac_of (PyFloat 5144850062939930 10)) = (527, 16)"
  by code_simp
lemma sig_fCO2: "round_sig 10 2 (frac_of (PyFloat 5014844481763968 (- 53))) = (56, - 2)"
  by code_simp

lemmas sigs = sig_wCO2_accum sig_mAir sig_fCO2

text \<open>The float that numpy binds to \<open>pi\<close> is the one the literal 3.141592653589793 denotes.\<close>

lemma lit_pi: "fl (scale 10 (- 15) (3141592653589793, 1)) = Inr numpy_pi"
  by code_simp

text \<open>The exact value of a float, and the divisors of the three divisions.\<close>

lemma val_PyFloat:
  "val (PyFloat n e) = (if 0 \<le> e then of_int n * 2 ^ nat e else of_int n / 2 ^ nat (- e))"
  by (simp add: val_def frac_val_def scale_def)

lemma nonzero_divisors:
  "\<not> is_zero (PyFloat 8154330075307704 (- 48))"
  "\<not> is_zero (PyFloat 5522539043063071 (- 49))"
  "\<not> is_zero (PyFloat 8832000000000000 (- 8))"
  by (simp_all add: is_zero_def scale_def)

lemmas lits = lit_mCO2_in lit_nCO2_accum lit_mwAir lit_mwCO2 lit_g

lemmas ops = op_mCO2_in op_n_mwCO2 op_wCO2_accum op_4_pi op_R_2 op_A op_A_P op_mAir
  op_mCO2_accum op_mCO2_out op_fCO2 op_ratio op_n_ratio op_mAir_w

lemmas fmts = fmt_mCO2_in fmt_wCO2_accum fmt_mAir fmt_mCO2_accum fmt_mCO2_out fmt_fCO2

lemmas py_ops = py_mul.simps py_sub.simps py_truediv.simps py_pow.simps

lemmas exprs = BinOp_def Name_def Int_lit_def Float_lit_def

lemmas stmts = assign_def print_format_def from_numpy_import_star_def matplotlib_inline_def
  numpy_pi_def


section \<open>The circle constant\<close>

text \<open>
  The sine is positive at 3.1415 and negative at 3.1416, by its Taylor polynomial of
  degree 17 and the bound on the remainder. So \<open>pi\<close> lies between the two, and the
  float that numpy binds to \<open>pi\<close> is within \<open>10 ^ - 4\<close> of it: more than the three
  significant digits of the printed mass of the atmosphere need.
\<close>

lemma sin_lower: "(\<Sum>m<n. sin_coeff m * x ^ m) - \<bar>x\<bar> ^ n / fact n \<le> sin x"
  using Maclaurin_sin_bound[of x n] by (simp add: abs_le_iff inverse_eq_divide algebra_simps)

lemma sin_upper: "sin x \<le> (\<Sum>m<n. sin_coeff m * x ^ m) + \<bar>x\<bar> ^ n / fact n"
  using Maclaurin_sin_bound[of x n] by (simp add: abs_le_iff inverse_eq_divide algebra_simps)

lemma sin_31415: "0 < sin (31415 / 10000 :: real)"
proof -
  have "0 < (\<Sum>m<18. sin_coeff m * (31415 / 10000) ^ m) - \<bar>31415 / 10000 :: real\<bar> ^ 18 / fact 18"
    by (simp add: sin_coeff_def lessThan_nat_numeral fact_numeral power_divide)
  then show ?thesis using sin_lower[where n = 18 and x = "31415 / 10000"] by linarith
qed

lemma sin_31416: "sin (31416 / 10000 :: real) < 0"
proof -
  have "(\<Sum>m<18. sin_coeff m * (31416 / 10000) ^ m) + \<bar>31416 / 10000 :: real\<bar> ^ 18 / fact 18 < 0"
    by (simp add: sin_coeff_def lessThan_nat_numeral fact_numeral power_divide)
  then show ?thesis using sin_upper[where n = 18 and x = "31416 / 10000"] by linarith
qed

lemma pi_bounds: "31415 / 10000 < pi" "pi < 31416 / 10000"
proof -
  show "31415 / 10000 < pi"
  proof (rule ccontr)
    assume "\<not> 31415 / 10000 < pi"
    then have "pi \<le> 31415 / 10000" by simp
    moreover have "31415 / 10000 < 2 * pi" using pi_ge_two by linarith
    ultimately have "sin (31415 / 10000 :: real) \<le> 0" by (rule sin_le_zero)
    with sin_31415 show False by simp
  qed
  show "pi < 31416 / 10000"
  proof (rule ccontr)
    assume "\<not> pi < 31416 / 10000"
    then have "31416 / 10000 \<le> pi" by simp
    then have "0 \<le> sin (31416 / 10000 :: real)" by (intro sin_ge_zero) simp_all
    with sin_31416 show False by simp
  qed
qed

lemma numpy_pi_near_pi: "\<bar>val numpy_pi - pi\<bar> < 1 / 10000"
proof -
  have "31415 / 10000 < val numpy_pi" "val numpy_pi < 31416 / 10000"
    by (simp_all add: numpy_pi_def val_PyFloat)
  then show ?thesis using pi_bounds by linarith
qed

text \<open>
  The quantities in exact real arithmetic, from the decimal constants of the notebook
  and the real number \<open>pi\<close>: they round to the same printed digits as the floats.
\<close>

lemma exact_mass_of_atmosphere:
  "\<bar>4 * pi * 6371000 ^ 2 * 101325 / (981 / 100) - 527 * 10 ^ 16\<bar> < 5 * 10 ^ 15"
proof -
  have "4 * pi * 6371000 ^ 2 * 101325 / (981 / 100) = pi * (4 * 6371000 ^ 2 * 101325 / (981 / 100))"
    by simp
  moreover have "31415 / 10000 * (4 * 6371000 ^ 2 * 101325 / (981 / 100)) < pi * (4 * 6371000 ^ 2 * 101325 / (981 / 100))"
    using pi_bounds(1) by (intro mult_strict_right_mono) simp_all
  moreover have "pi * (4 * 6371000 ^ 2 * 101325 / (981 / 100)) < 31416 / 10000 * (4 * 6371000 ^ 2 * 101325 / (981 / 100))"
    using pi_bounds(2) by (intro mult_strict_right_mono) simp_all
  ultimately show ?thesis by (simp add: abs_less_iff)
qed

lemma exact_retained_fraction:
  "\<bar>4 * pi * 6371000 ^ 2 * 101325 / (981 / 100) * (24 / 10 ^ 7 * (4401 / 100) / (2897 / 100))
     / (345 / 10 * 10 ^ 9 * 1000) - 56 / 100\<bar> < 5 / 1000"
proof -
  let ?c = "4 * 6371000 ^ 2 * 101325 / (981 / 100) * (24 / 10 ^ 7 * (4401 / 100) / (2897 / 100))
     / (345 / 10 * 10 ^ 9 * 1000) :: real"
  have eq: "4 * pi * 6371000 ^ 2 * 101325 / (981 / 100) * (24 / 10 ^ 7 * (4401 / 100) / (2897 / 100))
     / (345 / 10 * 10 ^ 9 * 1000) = pi * ?c"
    by simp
  have "31415 / 10000 * ?c < pi * ?c"
    using pi_bounds(1) by (intro mult_strict_right_mono) simp_all
  moreover have "pi * ?c < 31416 / 10000 * ?c"
    using pi_bounds(2) by (intro mult_strict_right_mono) simp_all
  ultimately show ?thesis unfolding eq by (simp add: abs_less_iff)
qed

lemma exact_mass_fraction_growth_rate:
  "\<bar>24 / 10 ^ 7 * (4401 / 100) / (2897 / 100) - 365 / 10 ^ 8 :: real\<bar> < 5 / 10 ^ 9"
  by simp


section \<open>The run of the notebook\<close>

text \<open>
  From any state of the kernel, running the cells in order returns: it binds the
  names below, appends six lines to the output and makes fourteen assignments.
\<close>

lemma exec_notebook:
  "exec notebook k = Inr (k\<lparr>
     globals := (globals k)
       (''pi'' \<mapsto> PyFloat 7074237752028440 (- 51),
        ''mCO2_in'' \<mapsto> PyFloat 8832000000000000 (- 8),
        ''nCO2_accum'' \<mapsto> PyFloat 5666839779443574 (- 71),
        ''mwAir'' \<mapsto> PyFloat 8154330075307704 (- 48),
        ''mwCO2'' \<mapsto> PyFloat 6193856862517985 (- 47),
        ''wCO2_accum'' \<mapsto> PyFloat 8608823565526810 (- 71),
        ''R'' \<mapsto> PyInt 6371000,
        ''A'' \<mapsto> PyFloat 8161031550556612 (- 4),
        ''g'' \<mapsto> PyFloat 5522539043063071 (- 49),
        ''P'' \<mapsto> PyInt 101325,
        ''mAir'' \<mapsto> PyFloat 5144850062939930 10,
        ''mCO2_accum'' \<mapsto> PyFloat 4917300618127936 (- 8),
        ''mCO2_out'' \<mapsto> PyFloat 7829398763744128 (- 9),
        ''fCO2'' \<mapsto> PyFloat 5014844481763968 (- 53)),
     stdout := stdout k @
       [''Global CO2 emissions = 3.45e+13 kg/yr'',
        ''Accumulation Rate of CO2 = 3.65e-06 kg CO2/kg air'',
        ''Estimated mass of the atmosphere = 5.27e+18 kg'',
        ''Change in CO2 = 1.92e+13 kg CO2/year'',
        ''Global CO2 outflow = 1.53e+13 kg CO2/yr'',
        ''Fraction of CO2 retained in the atmosphere = 0.56 ''],
     assigned := assigned k @
       [''mCO2_in'', ''mCO2_in'', ''nCO2_accum'', ''mwAir'', ''mwCO2'', ''wCO2_accum'',
        ''R'', ''A'', ''g'', ''P'', ''mAir'', ''mCO2_accum'', ''mCO2_out'', ''fCO2'']\<rparr>)"
  unfolding notebook_def cell_1_def cell_2_def cell_3_def cell_4_def cell_5_def cell_6_def
    cell_7_def
  by (simp add: exprs stmts lits ops fmts del: py_ops)


section \<open>The material balance\<close>

text \<open>
  C1. In the state the run ends in, with the floats that the variables hold:
  the mass-fraction growth rate is the float quotient of the float product
  \<open>nCO2_accum * mwCO2\<close> by \<open>mwAir\<close>, the accumulation is the float product of the
  mass of the atmosphere and that rate, and the outflow is the float difference of
  inflow and accumulation, which is exact here: the value of the outflow is the value
  of the inflow minus the value of the accumulation.

  In real numbers: the inflow is exactly 3.45e13, and the three constants are their
  decimals 2.4e-6, 44.01 and 28.97 within the relative error \<open>2 ^ - 53\<close>. Each product
  and quotient is the exact product or quotient of the values of its operands within
  that relative error, the growth rate is the mole-fraction growth rate times the ratio
  of the molar masses within \<open>2 ^ - 52\<close>, and the outflow, exactly 15291794460437.75,
  is within 0.01 of \<open>mCO2_in - mAir * (nCO2_accum * mwCO2 / mwAir)\<close> evaluated without
  rounding on the values of the variables.

  The last conjuncts say the same of the Python expressions: each variable holds what
  its defining expression evaluates to in the final state, and the outflow is the
  value of \<open>mCO2_in - (mAir * (nCO2_accum * mwCO2 / mwAir))\<close>, float for float.
\<close>

theorem outflow_balance:
  "\<exists>k i m n c a t w acc out.
     exec notebook fresh = Inr k
     \<and> globals k ''mCO2_in'' = Some i \<and> globals k ''mAir'' = Some m
     \<and> globals k ''nCO2_accum'' = Some n \<and> globals k ''mwCO2'' = Some c
     \<and> globals k ''mwAir'' = Some a \<and> globals k ''wCO2_accum'' = Some w
     \<and> globals k ''mCO2_accum'' = Some acc \<and> globals k ''mCO2_out'' = Some out
     \<and> py_mul n c = Inr t \<and> py_truediv t a = Inr w
     \<and> py_mul w m = Inr acc \<and> py_mul m w = Inr acc
     \<and> py_sub i acc = Inr out
     \<and> val i = 345 / 10 * 10 ^ 9 * 1000
     \<and> \<bar>val n - 24 / 10 ^ 7\<bar> \<le> 24 / 10 ^ 7 / 2 ^ 53
     \<and> \<bar>val c - 4401 / 100\<bar> \<le> 4401 / 100 / 2 ^ 53
     \<and> \<bar>val a - 2897 / 100\<bar> \<le> 2897 / 100 / 2 ^ 53
     \<and> \<bar>val t - val n * val c\<bar> \<le> \<bar>val n * val c\<bar> / 2 ^ 53
     \<and> \<bar>val w - val t / val a\<bar> \<le> \<bar>val t / val a\<bar> / 2 ^ 53
     \<and> \<bar>val w - val n * (val c / val a)\<bar> \<le> \<bar>val n * (val c / val a)\<bar> / 2 ^ 52
     \<and> \<bar>val acc - val m * val w\<bar> \<le> \<bar>val m * val w\<bar> / 2 ^ 53
     \<and> val out = val i - val acc
     \<and> \<bar>val out - (val i - val m * (val n * val c / val a))\<bar> < 1 / 100
     \<and> val out = 61167177841751 / 4
     \<and> Name ''wCO2_accum'' k
         = BinOp py_truediv (BinOp py_mul (Name ''nCO2_accum'') (Name ''mwCO2''))
             (Name ''mwAir'') k
     \<and> Name ''wCO2_accum'' k
         = BinOp py_mul (Name ''nCO2_accum'')
             (BinOp py_truediv (Name ''mwCO2'') (Name ''mwAir'')) k
     \<and> Name ''mCO2_accum'' k = BinOp py_mul (Name ''mAir'') (Name ''wCO2_accum'') k
     \<and> Name ''mCO2_out'' k = BinOp py_sub (Name ''mCO2_in'') (Name ''mCO2_accum'') k
     \<and> Name ''mCO2_out'' k
         = BinOp py_sub (Name ''mCO2_in'')
             (BinOp py_mul (Name ''mAir'')
                (BinOp py_truediv (BinOp py_mul (Name ''nCO2_accum'') (Name ''mwCO2''))
                   (Name ''mwAir''))) k
     \<and> Name ''mCO2_out'' k = Inr out"
  by (simp add: exec_notebook fresh_def exprs ops val_PyFloat del: py_ops frac_of.simps)

text \<open>
  C2. The inflow is 34.5e9 tonnes a year times 1000, exactly 3.45e13 kg a year. The
  accumulation is positive, the outflow is the float difference of inflow and
  accumulation, its value is the value of the inflow minus the value of the
  accumulation, and it is strictly below the inflow.
\<close>

theorem outflow_below_inflow:
  "\<exists>k i a out. exec notebook fresh = Inr k
     \<and> globals k ''mCO2_in'' = Some i \<and> val i = 345 / 10 * 10 ^ 9 * 1000
     \<and> globals k ''mCO2_accum'' = Some a \<and> 0 < val a
     \<and> globals k ''mCO2_out'' = Some out \<and> py_sub i a = Inr out
     \<and> val out < val i
     \<and> val out = val i - val a"
  by (simp add: exec_notebook fresh_def ops val_PyFloat del: py_ops frac_of.simps)

text \<open>
  C3. The retained fraction is the float quotient of accumulation and inflow. Rounded
  to two significant digits it is \<open>56 * 10 ^ - 2\<close>, the notebook prints it as 0.56,
  it is within 0.005 of 0.56, and it lies strictly between 0 and 1. The exact value
  of the same formula, with the decimal constants and the real \<open>pi\<close>, is within 0.005
  of 0.56 too.
\<close>

theorem retained_fraction:
  "\<exists>k i a f. exec notebook fresh = Inr k
     \<and> globals k ''mCO2_in'' = Some i \<and> globals k ''mCO2_accum'' = Some a
     \<and> globals k ''fCO2'' = Some f \<and> py_truediv a i = Inr f
     \<and> round_sig 10 2 (frac_of f) = (56, - 2)
     \<and> format_float spec_left_2g f = Inr ''0.56''
     \<and> \<bar>val f - 56 / 100\<bar> < 5 / 1000
     \<and> 0 < val f \<and> val f < 1
     \<and> \<bar>4 * pi * 6371000 ^ 2 * 101325 / (981 / 100)
           * (24 / 10 ^ 7 * (4401 / 100) / (2897 / 100))
           / (345 / 10 * 10 ^ 9 * 1000) - 56 / 100\<bar> < 5 / 1000"
proof -
  have "\<exists>k i a f. exec notebook fresh = Inr k
     \<and> globals k ''mCO2_in'' = Some i \<and> globals k ''mCO2_accum'' = Some a
     \<and> globals k ''fCO2'' = Some f \<and> py_truediv a i = Inr f
     \<and> round_sig 10 2 (frac_of f) = (56, - 2)
     \<and> format_float spec_left_2g f = Inr ''0.56''
     \<and> \<bar>val f - 56 / 100\<bar> < 5 / 1000
     \<and> 0 < val f \<and> val f < 1"
    by (simp add: exec_notebook fresh_def ops fmts sigs val_PyFloat del: py_ops frac_of.simps)
  with exact_retained_fraction show ?thesis by blast
qed


section \<open>The unit conversions\<close>

text \<open>
  C4. With the mole-fraction growth rate 2.4e-6 and the molar masses 44.01 and 28.97,
  each the float its literal denotes, the mass-fraction growth rate
  \<open>nCO2_accum * mwCO2 / mwAir\<close> rounds to \<open>365 * 10 ^ - 8\<close> at three significant
  digits, is printed as 3.65e-06, and is within 0.005e-6 of 3.65e-6; so is the exact
  value of \<open>2.4e-6 * 44.01 / 28.97\<close>.
\<close>

theorem mass_fraction_growth_rate:
  "\<exists>k n c a w. exec notebook fresh = Inr k
     \<and> globals k ''nCO2_accum'' = Some n \<and> Float_lit 24 (- 7) k = Inr n
     \<and> globals k ''mwCO2'' = Some c \<and> Float_lit 4401 (- 2) k = Inr c
     \<and> globals k ''mwAir'' = Some a \<and> Float_lit 2897 (- 2) k = Inr a
     \<and> globals k ''wCO2_accum'' = Some w
     \<and> BinOp py_truediv (BinOp py_mul (Name ''nCO2_accum'') (Name ''mwCO2'')) (Name ''mwAir'') k
         = Inr w
     \<and> round_sig 10 3 (frac_of w) = (365, - 8)
     \<and> format_float spec_8_3g w = Inr ''3.65e-06''
     \<and> \<bar>val w - 365 / 10 ^ 8\<bar> < 5 / 10 ^ 9
     \<and> \<bar>24 / 10 ^ 7 * (4401 / 100) / (2897 / 100) - 365 / 10 ^ 8 :: real\<bar> < 5 / 10 ^ 9"
  by (simp add: exec_notebook fresh_def exprs lits ops fmts sigs val_PyFloat
        del: py_ops frac_of.simps)

text \<open>
  C5. The mass of the atmosphere is the value of \<open>4 * pi * 6371000 ** 2 * 101325 / 9.81\<close>
  with numpy's \<open>pi\<close>, evaluated as Python does from left to right. It rounds to
  \<open>527 * 10 ^ 16\<close> at three significant digits, is printed as 5.27e+18, and is within
  0.005e18 of 5.27e18. numpy's \<open>pi\<close> is within \<open>10 ^ - 4\<close> of the real number \<open>pi\<close>, and
  the exact value of the formula with the real \<open>pi\<close> is within 0.005e18 of 5.27e18 too.
\<close>

theorem mass_of_atmosphere:
  "\<exists>k m. exec notebook fresh = Inr k
     \<and> globals k ''mAir'' = Some m
     \<and> globals k ''pi'' = Some numpy_pi
     \<and> BinOp py_truediv
           (BinOp py_mul
              (BinOp py_mul (BinOp py_mul (Int_lit 4) (Name ''pi''))
                 (BinOp py_pow (Int_lit 6371000) (Int_lit 2)))
              (Int_lit 101325))
           (Float_lit 981 (- 2)) k = Inr m
     \<and> round_sig 10 3 (frac_of m) = (527, 16)
     \<and> format_float spec_8_3g m = Inr ''5.27e+18''
     \<and> \<bar>val m - 527 * 10 ^ 16\<bar> < 5 * 10 ^ 15
     \<and> \<bar>val numpy_pi - pi\<bar> < 1 / 10000
     \<and> \<bar>4 * pi * 6371000 ^ 2 * 101325 / (981 / 100) - 527 * 10 ^ 16\<bar> < 5 * 10 ^ 15"
proof -
  have "\<exists>k m. exec notebook fresh = Inr k
     \<and> globals k ''mAir'' = Some m
     \<and> globals k ''pi'' = Some numpy_pi
     \<and> BinOp py_truediv
           (BinOp py_mul
              (BinOp py_mul (BinOp py_mul (Int_lit 4) (Name ''pi''))
                 (BinOp py_pow (Int_lit 6371000) (Int_lit 2)))
              (Int_lit 101325))
           (Float_lit 981 (- 2)) k = Inr m
     \<and> round_sig 10 3 (frac_of m) = (527, 16)
     \<and> format_float spec_8_3g m = Inr ''5.27e+18''
     \<and> \<bar>val m - 527 * 10 ^ 16\<bar> < 5 * 10 ^ 15"
    by (simp add: exec_notebook fresh_def exprs numpy_pi_def lits ops fmts sigs val_PyFloat
          del: py_ops frac_of.simps)
  with numpy_pi_near_pi exact_mass_of_atmosphere show ?thesis by blast
qed


section \<open>Assignments, errors and output\<close>

text \<open>
  C6, as stated: no name is assigned twice. The notebook does assign one name twice:
  \<open>mCO2_in\<close> first holds the inflow in tonnes, and the next statement replaces it by
  the inflow in kilograms.
\<close>

theorem reassignment_counterexample: "\<not> assigned_once notebook"
  by (simp add: assigned_once_def exec_notebook fresh_def)

text \<open>The state after the first assignment of the notebook.\<close>

lemma exec_first_assignment:
  "exec (cell_1 @ [hd cell_2]) k =
     Inr (k\<lparr>globals := (globals k)(''pi'' \<mapsto> numpy_pi,
                 ''mCO2_in'' \<mapsto> PyFloat 4521984000000000 (- 17)),
             assigned := assigned k @ [''mCO2_in'']\<rparr>)"
  by (simp add: cell_1_def cell_2_def exprs stmts lits del: py_ops)

text \<open>
  C6, amended. The assignments run in one fixed order. \<open>mCO2_in\<close> is assigned twice
  in succession: after the first assignment it is 34.5e9 (tonnes), and its last value
  is that float times 1000. Every other name is assigned exactly once, and nothing is
  assigned again after \<open>mCO2_in\<close> has its second value.
\<close>

theorem assignments_in_order:
  "\<exists>k1 k t kg. exec (cell_1 @ [hd cell_2]) fresh = Inr k1
     \<and> globals k1 ''mCO2_in'' = Some t \<and> val t = 345 / 10 * 10 ^ 9
     \<and> assigned k1 = [''mCO2_in'']
     \<and> exec notebook fresh = Inr k
     \<and> globals k ''mCO2_in'' = Some kg \<and> py_mul t (PyInt 1000) = Inr kg
     \<and> assigned k =
         [''mCO2_in'', ''mCO2_in'', ''nCO2_accum'', ''mwAir'', ''mwCO2'', ''wCO2_accum'',
          ''R'', ''A'', ''g'', ''P'', ''mAir'', ''mCO2_accum'', ''mCO2_out'', ''fCO2'']
     \<and> distinct (tl (assigned k))"
  by (simp add: exec_notebook exec_first_assignment fresh_def ops val_PyFloat
        del: py_ops frac_of.simps)

text \<open>
  C7. Whatever the state of the kernel before, the run of the notebook returns a
  state: no statement raises, and no float leaves the normal range. The divisors of
  its three divisions, \<open>mwAir\<close>, \<open>g\<close> and \<open>mCO2_in\<close>, are not zero.
\<close>

theorem no_error_reachable:
  "\<forall>k0. \<exists>k a g i. exec notebook k0 = Inr k
     \<and> globals k ''mwAir'' = Some a \<and> \<not> is_zero a
     \<and> globals k ''g'' = Some g \<and> \<not> is_zero g
     \<and> globals k ''mCO2_in'' = Some i \<and> \<not> is_zero i"
  by (simp add: exec_notebook nonzero_divisors del: frac_of.simps)

text \<open>
  C8. The run appends exactly six lines to the output, in this order: the emissions,
  the accumulation rate, the mass of the atmosphere, the change in CO2, the outflow
  and the retained fraction. Each line is the literal text of its format string
  around the value of its variable, formatted by \<open>8.3g\<close> (the last by \<open><.2g\<close>).
\<close>

theorem printed_output:
  "\<forall>k0. \<exists>k v1 v2 v3 v4 v5 v6 s1 s2 s3 s4 s5 s6. exec notebook k0 = Inr k
     \<and> globals k ''mCO2_in'' = Some v1 \<and> format_float spec_8_3g v1 = Inr s1
     \<and> globals k ''wCO2_accum'' = Some v2 \<and> format_float spec_8_3g v2 = Inr s2
     \<and> globals k ''mAir'' = Some v3 \<and> format_float spec_8_3g v3 = Inr s3
     \<and> globals k ''mCO2_accum'' = Some v4 \<and> format_float spec_8_3g v4 = Inr s4
     \<and> globals k ''mCO2_out'' = Some v5 \<and> format_float spec_8_3g v5 = Inr s5
     \<and> globals k ''fCO2'' = Some v6 \<and> format_float spec_left_2g v6 = Inr s6
     \<and> stdout k = stdout k0 @
         [''Global CO2 emissions = '' @ s1 @ '' kg/yr'',
          ''Accumulation Rate of CO2 = '' @ s2 @ '' kg CO2/kg air'',
          ''Estimated mass of the atmosphere = '' @ s3 @ '' kg'',
          ''Change in CO2 = '' @ s4 @ '' kg CO2/year'',
          ''Global CO2 outflow = '' @ s5 @ '' kg CO2/yr'',
          ''Fraction of CO2 retained in the atmosphere = '' @ s6 @ '' '']
     \<and> stdout k = stdout k0 @
         [''Global CO2 emissions = 3.45e+13 kg/yr'',
          ''Accumulation Rate of CO2 = 3.65e-06 kg CO2/kg air'',
          ''Estimated mass of the atmosphere = 5.27e+18 kg'',
          ''Change in CO2 = 1.92e+13 kg CO2/year'',
          ''Global CO2 outflow = 1.53e+13 kg CO2/yr'',
          ''Fraction of CO2 retained in the atmosphere = 0.56 '']"
  by (simp add: exec_notebook fmts)

text \<open>
  C9. The notebook reads nothing from the state it starts in: two runs, from any two
  states of the kernel, both return, and they agree on the six quantities, on the
  lines they print and on the assignments they make.
\<close>

theorem runs_agree:
  "\<forall>k1 k2. \<exists>k1' k2'. exec notebook k1 = Inr k1' \<and> exec notebook k2 = Inr k2'
     \<and> map (globals k1') [''mCO2_in'', ''wCO2_accum'', ''mAir'', ''mCO2_accum'', ''mCO2_out'', ''fCO2'']
       = map (globals k2') [''mCO2_in'', ''wCO2_accum'', ''mAir'', ''mCO2_accum'', ''mCO2_out'', ''fCO2'']
     \<and> drop (length (stdout k1)) (stdout k1') = drop (length (stdout k2)) (stdout k2')
     \<and> drop (length (assigned k1)) (assigned k1') = drop (length (assigned k2)) (assigned k2')"
  by (simp add: exec_notebook)

text \<open>C10. Each of the six quantities is a float with a strictly positive value.\<close>

theorem quantities_positive:
  "\<exists>k v1 v2 v3 v4 v5 v6. exec notebook fresh = Inr k
     \<and> globals k ''mCO2_in'' = Some v1 \<and> 0 < val v1
     \<and> globals k ''wCO2_accum'' = Some v2 \<and> 0 < val v2
     \<and> globals k ''mAir'' = Some v3 \<and> 0 < val v3
     \<and> globals k ''mCO2_accum'' = Some v4 \<and> 0 < val v4
     \<and> globals k ''mCO2_out'' = Some v5 \<and> 0 < val v5
     \<and> globals k ''fCO2'' = Some v6 \<and> 0 < val v6"
  by (simp add: exec_notebook fresh_def val_PyFloat del: frac_of.simps)

end
